theory Spec2Isabelle
  imports Main "HOL-Library.Word"
begin

section \<open>The upload page (src/app/page.tsx): data\<close>

text \<open>
  A browser \<open>File\<close>: its name, its declared media type and its bytes. The \<open>size\<close>
  attribute of a \<open>File\<close> is the number of its bytes.
\<close>

type_synonym byte = "8 word"

record File =
  fname :: string
  ftype :: string
  bytes :: "byte list"

definition fsize :: "File \<Rightarrow> nat" where
  "fsize f = length (bytes f)"

text \<open>
  The values the \<open>hexColor\<close> state holds at run time: it is declared a string, and
  \<open>setHexColor(response.data.hex_color)\<close> stores whatever the payload has there,
  \<open>undefined\<close> when it has no such field. \<open>truthy\<close> is the test of \<open>if (hexColor)\<close>
  and of \<open>hexColor && ...\<close>.
\<close>

datatype jsval = JUndefined | JNull | JString string

fun truthy :: "jsval \<Rightarrow> bool" where
  "truthy JUndefined = False"
| "truthy JNull = False"
| "truthy (JString s) = (s \<noteq> [])"

text \<open>
  A thrown or rejected value: its message and \<open>error.response?.status\<close> (present on
  the rejection of a request that the server answered with an error status).
\<close>

datatype js_error = JsError (message: string) (response_status: "nat option")

text \<open>
  The payload \<open>response.data\<close> of a resolved request: \<open>null\<close>/\<open>undefined\<close>, or an
  object with its fields (strings, or \<open>null\<close>).
\<close>

datatype payload = NoData | ObjData "(string \<times> jsval) list"

record response =
  status :: nat
  data :: payload

text \<open>\<open>response.data.hex_color\<close>: reading a property of \<open>null\<close> throws a TypeError.\<close>

fun hex_color_of :: "payload \<Rightarrow> js_error + jsval" where
  "hex_color_of NoData =
     Inl (JsError ''TypeError: Cannot read properties of null'' None)"
| "hex_color_of (ObjData props) =
     (case map_of props ''hex_color'' of
        None \<Rightarrow> Inr JUndefined
      | Some c \<Rightarrow> Inr c)"

text \<open>The five \<open>useState\<close> cells of \<open>Home\<close>, with their initial values.\<close>

record state =
  "file" :: "File option"
  hexColor :: jsval
  preview :: string
  loading :: bool
  previousHash :: string

definition initial_state :: state where
  "initial_state =
     \<lparr>file = None, hexColor = JString [], preview = [], loading = False,
      previousHash = []\<rparr>"

text \<open>
  What the page calls outside itself, as results handed in: the digest of
  \<open>crypto.subtle.digest("SHA-256", await file.arrayBuffer())\<close> (or the rejection of
  either promise), \<open>process.env.NEXT_PUBLIC_API_URL\<close>, the settled outcome of
  \<open>axios.post\<close> (resolved with a response, or rejected), \<open>URL.createObjectURL\<close>, the
  identifier \<open>toast.loading\<close> returns, and whether \<open>navigator.clipboard.writeText\<close>
  resolves.
\<close>

record env =
  subtle_digest :: "byte list \<Rightarrow> js_error + byte list"
  apiUrl :: "string option"
  axios_post :: "string \<Rightarrow> (string \<times> File) list \<Rightarrow> js_error + response"
  createObjectURL :: "File \<Rightarrow> string"
  loading_toast_id :: string
  clipboard_writeText :: "string \<Rightarrow> bool"

text \<open>
  What a handler does, in order: calls of the state setters, of the toast library
  (\<open>ToastDismiss None\<close> is \<open>toast.dismiss()\<close>, which dismisses every toast), of
  \<open>setTimeout\<close> with the delay in milliseconds and what the callback does, and of the
  browser and the network.
\<close>

datatype action =
    SetFile File
  | SetPreview string
  | SetHexColor jsval
  | SetLoading bool
  | SetPreviousHash string
  | ToastError string
  | ToastLoading string
  | ToastSuccess string
  | ToastDismiss "string option"
  | SetTimeout nat "action list"
  | HttpPost string "(string \<times> File) list"
  | ClipboardWriteText string
  | ConsoleError string js_error

text \<open>The state after an action: only the setters change it.\<close>

fun apply_action :: "state \<Rightarrow> action \<Rightarrow> state" where
  "apply_action s (SetFile f) = s\<lparr>file := Some f\<rparr>"
| "apply_action s (SetPreview p) = s\<lparr>preview := p\<rparr>"
| "apply_action s (SetHexColor c) = s\<lparr>hexColor := c\<rparr>"
| "apply_action s (SetLoading b) = s\<lparr>loading := b\<rparr>"
| "apply_action s (SetPreviousHash h) = s\<lparr>previousHash := h\<rparr>"
| "apply_action s _ = s"

definition run :: "state \<Rightarrow> action list \<Rightarrow> state" where
  "run s acts = foldl apply_action s acts"

text \<open>The network requests and the failure notifications of a trace, timers included.\<close>

fun requests :: "action \<Rightarrow> action list" where
  "requests (HttpPost url form) = [HttpPost url form]"
| "requests (SetTimeout ms acts) = concat (map requests acts)"
| "requests _ = []"

fun failures :: "action \<Rightarrow> string list" where
  "failures (ToastError m) = [m]"
| "failures (SetTimeout ms acts) = concat (map failures acts)"
| "failures _ = []"

definition network_requests :: "action list \<Rightarrow> action list" where
  "network_requests acts = concat (map requests acts)"

definition failure_notifications :: "action list \<Rightarrow> string list" where
  "failure_notifications acts = concat (map failures acts)"

section \<open>File intake: fileSchema and handleFileChange\<close>

text \<open>
  \<open>fileSchema.safeParse({ file })\<close> on a \<open>File\<close>: the \<open>custom\<close> check
  \<open>value instanceof File\<close> holds, and each \<open>refine\<close> that fails adds its issue, in the
  order of the chain. The result is the list of the issues' messages; parsing
  succeeds when there is none.
\<close>

definition fileSchema_issues :: "File \<Rightarrow> string list" where
  "fileSchema_issues f =
     (if fsize f \<le> 3 * 1024 * 1024 then [] else [''Ukuran file maksimal 3MB'']) @
     (if ftype f \<in> set [''image/jpeg'', ''image/png'', ''image/jpg''] then []
      else [''Hanya mendukung file berformat JPEG atau PNG''])"

text \<open>\<open>validation.error.errors[0]?.message || "File tidak valid"\<close>\<close>

definition first_message :: "string list \<Rightarrow> string" where
  "first_message errors =
     (case errors of
        [] \<Rightarrow> ''File tidak valid''
      | m # _ \<Rightarrow> (if m = [] then ''File tidak valid'' else m))"

definition handleFileChange :: "env \<Rightarrow> File list \<Rightarrow> action list" where
  "handleFileChange e uploadedFiles =
     (case uploadedFiles of
        [] \<Rightarrow> []
      | uploadedFile # _ \<Rightarrow>
          (if fileSchema_issues uploadedFile \<noteq> []
           then [ToastError (first_message (fileSchema_issues uploadedFile))]
           else [SetFile uploadedFile,
                 SetPreview (createObjectURL e uploadedFile),
                 SetHexColor (JString [])]))"

section \<open>Submission: calculateFileHash and handleUpload\<close>

text \<open>\<open>b.toString(16)\<close> and \<open>padStart(2, "0")\<close>\<close>

definition hex_digit :: "nat \<Rightarrow> char" where
  "hex_digit n = ''0123456789abcdef'' ! n"

fun toString16 :: "nat \<Rightarrow> string" where
  "toString16 n =
     (if n < 16 then [hex_digit n] else toString16 (n div 16) @ [hex_digit (n mod 16)])"

declare toString16.simps [simp del]

definition padStart :: "nat \<Rightarrow> char \<Rightarrow> string \<Rightarrow> string" where
  "padStart k c s = replicate (k - length s) c @ s"

definition hex_of_bytes :: "byte list \<Rightarrow> string" where
  "hex_of_bytes hashArray =
     concat (map (\<lambda>b. padStart 2 (CHR ''0'') (toString16 (unat b))) hashArray)"

definition calculateFileHash :: "env \<Rightarrow> File \<Rightarrow> js_error + string" where
  "calculateFileHash e f =
     (case subtle_digest e (bytes f) of
        Inl err \<Rightarrow> Inl err
      | Inr hashBuffer \<Rightarrow> Inr (hex_of_bytes hashBuffer))"

text \<open>
  The \<open>try\<close> block of \<open>handleUpload\<close>: what it did, and the exception that left it, if
  one did. \<open>!apiUrl\<close> holds for \<open>undefined\<close> and for the empty string.
\<close>

definition handleUpload_try :: "env \<Rightarrow> state \<Rightarrow> File \<Rightarrow> action list \<times> js_error option" where
  "handleUpload_try e s f =
     (case calculateFileHash e f of
        Inl err \<Rightarrow> ([], Some err)
      | Inr currentHash \<Rightarrow>
          if currentHash = previousHash s
          then ([ToastLoading ''Gambar sudah diproses sebelumnya...'',
                 SetTimeout 2000
                   [ToastDismiss (Some (loading_toast_id e)),
                    ToastSuccess ''Gambar sudah diproses sebelumnya!'']], None)
          else
            let started = [SetLoading True, ToastLoading ''Mengunggah file...''];
                formData = [(''file'', f)]
            in (case apiUrl e of
                  None \<Rightarrow> (started, Some (JsError ''API URL is not defined'' None))
                | Some url \<Rightarrow>
                    if url = [] then (started, Some (JsError ''API URL is not defined'' None))
                    else
                      (case axios_post e url formData of
                         Inl err \<Rightarrow> (started @ [HttpPost url formData], Some err)
                       | Inr resp \<Rightarrow>
                           let answered = started @
                                 [HttpPost url formData,
                                  ToastDismiss (Some (loading_toast_id e)),
                                  ToastSuccess ''File berhasil diunggah!'']
                           in (case hex_color_of (data resp) of
                                 Inl err \<Rightarrow> (answered, Some err)
                               | Inr c \<Rightarrow>
                                   (answered @ [SetHexColor c, SetPreviousHash currentHash],
                                    None)))))"

definition handleUpload_catch :: "js_error \<Rightarrow> action list" where
  "handleUpload_catch err =
     ToastDismiss None #
     (if response_status err = Some 413
      then [ToastError ''File terlalu besar! Ukuran file harus di bawah 3MB.'']
      else [ConsoleError ''Error uploading file:'' err,
            ToastError ''Gagal mengunggah file! Silakan coba lagi.''])"

definition handleUpload :: "env \<Rightarrow> state \<Rightarrow> action list" where
  "handleUpload e s =
     (case file s of
        None \<Rightarrow> [ToastError ''Silakan upload file terlebih dahulu!'']
      | Some f \<Rightarrow>
          (case handleUpload_try e s f of
             (acts, thrown) \<Rightarrow>
               acts @
               (case thrown of None \<Rightarrow> [] | Some err \<Rightarrow> handleUpload_catch err) @
               [SetLoading False]))"

section \<open>The result swatch and the submit button\<close>

definition copyToClipboard :: "env \<Rightarrow> state \<Rightarrow> action list" where
  "copyToClipboard e s =
     (if truthy (hexColor s)
      then (case hexColor s of
              JString c \<Rightarrow>
                [ClipboardWriteText c,
                 if clipboard_writeText e c
                 then ToastSuccess ''Kode HEX berhasil disalin!''
                 else ToastError ''Gagal menyalin kode HEX.'']
            | _ \<Rightarrow> [])
      else [])"

text \<open>
  The submit button: \<open>disabled={loading}\<close>, and a disabled button does not call its
  \<open>onClick\<close>.
\<close>

definition submit_disabled :: "state \<Rightarrow> bool" where
  "submit_disabled s = loading s"

definition click_submit :: "env \<Rightarrow> state \<Rightarrow> action list" where
  "click_submit e s = (if submit_disabled s then [] else handleUpload e s)"

section \<open>Concrete sessions\<close>

text \<open>
  A three-byte PNG-typed file (the bytes of \<open>abc\<close>, whose SHA-256 digest is
  \<open>sha256_abc\<close>), a file over the size limit, a text file, and browsers that differ in
  what the endpoint answers, in the configured address and in the clipboard.
\<close>

definition photo :: File where
  "photo = \<lparr>fname = ''photo.png'', ftype = ''image/png'', bytes = [0x61, 0x62, 0x63]\<rparr>"

definition huge_scan :: File where
  "huge_scan =
     \<lparr>fname = ''scan.bmp'', ftype = ''image/bmp'', bytes = replicate 3145729 0\<rparr>"

definition memo :: File where
  "memo = \<lparr>fname = ''notes.txt'', ftype = ''text/plain'', bytes = [0x68, 0x69]\<rparr>"

definition sha256_abc :: "byte list" where
  "sha256_abc =
     [0xba, 0x78, 0x16, 0xbf, 0x8f, 0x01, 0xcf, 0xea, 0x41, 0x41, 0x40, 0xde,
      0x5d, 0xae, 0x22, 0x23, 0xb0, 0x03, 0x61, 0xa3, 0x96, 0x17, 0x7a, 0x9c,
      0xb4, 0x10, 0xff, 0x61, 0xf2, 0x00, 0x15, 0xad]"

definition browser :: env where
  "browser =
     \<lparr>subtle_digest =
        (\<lambda>bs. if bs = [0x61, 0x62, 0x63] then Inr sha256_abc
              else Inl (JsError ''NotReadableError'' None)),
      apiUrl = Some ''https://color.example/upload'',
      axios_post =
        (\<lambda>url form. Inr \<lparr>status = 200, data = ObjData [(''hex_color'', JString ''#112233'')]\<rparr>),
      createObjectURL = (\<lambda>f. ''blob:'' @ fname f),
      loading_toast_id = ''1'',
      clipboard_writeText = (\<lambda>text. True)\<rparr>"

definition too_large_reply :: env where
  "too_large_reply =
     browser\<lparr>axios_post :=
       (\<lambda>url form. Inl (JsError ''Request failed with status code 413'' (Some 413)))\<rparr>"

definition server_error :: env where
  "server_error =
     browser\<lparr>axios_post :=
       (\<lambda>url form. Inl (JsError ''Request failed with status code 500'' (Some 500)))\<rparr>"

definition connection_refused :: env where
  "connection_refused =
     browser\<lparr>axios_post := (\<lambda>url form. Inl (JsError ''Network Error'' None))\<rparr>"

definition unreadable :: env where
  "unreadable = browser\<lparr>subtle_digest := (\<lambda>bs. Inl (JsError ''NotReadableError'' None))\<rparr>"

definition empty_reply :: env where
  "empty_reply =
     browser\<lparr>axios_post := (\<lambda>url form. Inr \<lparr>status = 200, data = NoData\<rparr>)\<rparr>"

definition malformed_reply :: env where
  "malformed_reply =
     browser\<lparr>axios_post := (\<lambda>url form. Inr \<lparr>status = 200, data = ObjData []\<rparr>)\<rparr>"

definition unconfigured :: env where
  "unconfigured = browser\<lparr>apiUrl := None\<rparr>"

definition clipboard_denied :: env where
  "clipboard_denied = browser\<lparr>clipboard_writeText := (\<lambda>text. False)\<rparr>"

definition photo_selected :: state where
  "photo_selected = initial_state\<lparr>file := Some photo, preview := ''blob:photo.png''\<rparr>"

definition photo_uploading :: state where
  "photo_uploading = photo_selected\<lparr>loading := True\<rparr>"

definition photo_processed :: state where
  "photo_processed =
     photo_selected
       \<lparr>hexColor := JString ''#112233'',
        previousHash := ''ba7816bf8f01cfea414140de5dae2223b00361a396177a9cb410ff61f20015ad''\<rparr>"

definition busy_duplicate :: state where
  "busy_duplicate = photo_processed\<lparr>loading := True\<rparr>"

section \<open>Basic facts\<close>

lemma run_Nil: "run s [] = s"
  by (simp add: run_def)

lemma run_Cons: "run s (a # acts) = run (apply_action s a) acts"
  by (simp add: run_def)

lemma run_append: "run s (xs @ ys) = run (run s xs) ys"
  by (simp add: run_def)

subsection \<open>The fingerprint is the digest, two lower-case hexadecimal digits a byte\<close>

lemma hex_digit_inject:
  assumes "i < 16" and "j < 16" and "hex_digit i = hex_digit j"
  shows "i = j"
proof -
  have "distinct ''0123456789abcdef''"
    by simp
  moreover have "i < length ''0123456789abcdef''" and "j < length ''0123456789abcdef''"
    using assms by simp_all
  ultimately show ?thesis
    using assms(3) unfolding hex_digit_def by (simp only: nth_eq_iff_index_eq)
qed

lemma hex_pair:
  assumes "n < 256"
  shows "padStart 2 (CHR ''0'') (toString16 n) = [hex_digit (n div 16), hex_digit (n mod 16)]"
proof (cases "n < 16")
  case True
  then show ?thesis
    by (simp add: padStart_def hex_digit_def toString16.simps)
next
  case False
  with assms have "n div 16 < 16"
    by simp
  with False show ?thesis
    by (simp add: padStart_def toString16.simps [of n] toString16.simps [of "n div 16"])
qed

lemma hex_of_bytes_Nil: "hex_of_bytes [] = []"
  by (simp add: hex_of_bytes_def)

lemma hex_of_bytes_Cons:
  "hex_of_bytes (b # bs) =
     hex_digit (unat b div 16) # hex_digit (unat b mod 16) # hex_of_bytes bs"
proof -
  have "unat b < 256"
    using unsigned_less [of b] by simp
  then show ?thesis
    by (simp add: hex_of_bytes_def hex_pair)
qed

lemma length_hex_of_bytes: "length (hex_of_bytes bs) = 2 * length bs"
  by (induction bs) (simp_all add: hex_of_bytes_Nil hex_of_bytes_Cons)

lemma byte_of_digits:
  fixes a b :: byte
  assumes "hex_digit (unat a div 16) = hex_digit (unat b div 16)"
    and "hex_digit (unat a mod 16) = hex_digit (unat b mod 16)"
  shows "a = b"
proof -
  have "unat a < 256" and "unat b < 256"
    using unsigned_less [of a] unsigned_less [of b] by simp_all
  then have "unat a div 16 < 16" and "unat b div 16 < 16"
    by simp_all
  with assms have "unat a div 16 = unat b div 16" and "unat a mod 16 = unat b mod 16"
    by (auto intro: hex_digit_inject)
  then have "unat a = unat b"
    by (metis div_mult_mod_eq)
  then show ?thesis
    by (rule unsigned_word_eqI)
qed

lemma hex_of_bytes_inject:
  "hex_of_bytes xs = hex_of_bytes ys \<Longrightarrow> xs = ys"
proof (induction xs arbitrary: ys)
  case Nil
  then show ?case
    by (cases ys) (simp_all add: hex_of_bytes_Nil hex_of_bytes_Cons)
next
  case (Cons x xs)
  then show ?case
    by (cases ys) (auto simp: hex_of_bytes_Nil hex_of_bytes_Cons intro: byte_of_digits)
qed

text \<open>
  So two fingerprints are equal strings exactly when the digests are the same bytes.
\<close>

lemma calculateFileHash_digest:
  "calculateFileHash e f = Inr (hex_of_bytes d) \<longleftrightarrow> subtle_digest e (bytes f) = Inr d"
  by (auto simp: calculateFileHash_def split: sum.splits dest: hex_of_bytes_inject)

lemma hash_photo:
  "calculateFileHash browser photo =
     Inr ''ba7816bf8f01cfea414140de5dae2223b00361a396177a9cb410ff61f20015ad''"
  by (simp add: calculateFileHash_def browser_def photo_def hex_of_bytes_def sha256_abc_def
      padStart_def hex_digit_def toString16.simps)

lemma hash_photo_other_reply:
  "calculateFileHash (browser\<lparr>axios_post := answer\<rparr>) photo =
     Inr ''ba7816bf8f01cfea414140de5dae2223b00361a396177a9cb410ff61f20015ad''"
  using hash_photo by (simp add: calculateFileHash_def)

lemma hash_photo_too_large_reply:
  "calculateFileHash too_large_reply photo =
     Inr ''ba7816bf8f01cfea414140de5dae2223b00361a396177a9cb410ff61f20015ad''"
  using hash_photo by (simp add: calculateFileHash_def too_large_reply_def)

lemma hash_photo_unconfigured:
  "calculateFileHash unconfigured photo =
     Inr ''ba7816bf8f01cfea414140de5dae2223b00361a396177a9cb410ff61f20015ad''"
  using hash_photo by (simp add: calculateFileHash_def unconfigured_def)

subsection \<open>The duplicate path and the busy flag\<close>

lemma duplicate_trace:
  assumes "file s = Some f" and "calculateFileHash e f = Inr (previousHash s)"
  shows "handleUpload e s =
           [ToastLoading ''Gambar sudah diproses sebelumnya...'',
            SetTimeout 2000
              [ToastDismiss (Some (loading_toast_id e)),
               ToastSuccess ''Gambar sudah diproses sebelumnya!''],
            SetLoading False]"
  using assms by (simp add: handleUpload_def handleUpload_try_def)

lemma take_cases: "n = 0 \<or> n = Suc 0 \<or> n = 2 \<or> 3 \<le> n"
  by arith

lemma duplicate_steps:
  "run st (take n [ToastLoading m, SetTimeout ms acts, SetLoading False]) =
     (if n < 3 then st else st\<lparr>loading := False\<rparr>)"
  using take_cases [of n] by (auto simp: run_def numeral_2_eq_2)

lemma busy_after_fresh_hash:
  assumes "SetLoading True \<in> set (handleUpload e s)"
  shows "\<exists>f h. file s = Some f \<and> calculateFileHash e f = Inr h \<and> h \<noteq> previousHash s"
  using assms
  by (auto simp: handleUpload_def handleUpload_try_def handleUpload_catch_def Let_def
      split: option.splits sum.splits if_splits)

section \<open>The claims\<close>

text \<open>
  Claim C1. When the fingerprint computed for the selected file equals the
  last-submitted fingerprint, \<open>handleUpload\<close> sends no network request and shows the
  "already processed" sequence: at once a pending notification, and a timer of 2000 ms
  that dismisses it and shows the success notification. (The \<open>finally\<close> block then
  writes \<open>false\<close> to the busy flag.)
\<close>

theorem handleUpload_duplicate:
  assumes "file s = Some f" and "calculateFileHash e f = Inr (previousHash s)"
  shows "handleUpload e s =
           [ToastLoading ''Gambar sudah diproses sebelumnya...'',
            SetTimeout 2000
              [ToastDismiss (Some (loading_toast_id e)),
               ToastSuccess ''Gambar sudah diproses sebelumnya!''],
            SetLoading False]
         \<and> network_requests (handleUpload e s) = []"
  using assms by (simp add: handleUpload_def handleUpload_try_def network_requests_def)

theorem handleUpload_duplicate_witness:
  "file photo_processed = Some photo
   \<and> calculateFileHash browser photo = Inr (previousHash photo_processed)
   \<and> handleUpload browser photo_processed =
       [ToastLoading ''Gambar sudah diproses sebelumnya...'',
        SetTimeout 2000
          [ToastDismiss (Some ''1''), ToastSuccess ''Gambar sudah diproses sebelumnya!''],
        SetLoading False]
   \<and> network_requests (handleUpload browser photo_processed) = []"
proof -
  have sel: "file photo_processed = Some photo"
    by (simp add: photo_processed_def photo_selected_def)
  have dup: "calculateFileHash browser photo = Inr (previousHash photo_processed)"
    by (simp add: hash_photo photo_processed_def photo_selected_def)
  have "loading_toast_id browser = ''1''"
    by (simp add: browser_def)
  with handleUpload_duplicate [OF sel dup] sel dup show ?thesis
    by (simp add: network_requests_def)
qed

text \<open>
  Claim C2, as amended. A submission with no selected file is rejected with the
  "please upload first" message and has no other effect: no state changes and no
  request is sent, whatever the busy flag. \<open>handleUpload\<close> itself never reads the busy
  flag: the flag disables the submit button, and a click on the disabled button does
  nothing and shows no message.
\<close>

theorem handleUpload_no_file:
  "(file s = None \<longrightarrow>
      handleUpload e s = [ToastError ''Silakan upload file terlebih dahulu!'']
      \<and> run st (handleUpload e s) = st
      \<and> network_requests (handleUpload e s) = [])
   \<and> (loading s \<longrightarrow> click_submit e s = [])"
  by (simp add: handleUpload_def run_def network_requests_def click_submit_def
      submit_disabled_def)

theorem handleUpload_no_file_witness:
  "file initial_state = None
   \<and> handleUpload browser initial_state = [ToastError ''Silakan upload file terlebih dahulu!'']
   \<and> run initial_state (handleUpload browser initial_state) = initial_state
   \<and> network_requests (handleUpload browser initial_state) = []
   \<and> loading photo_uploading
   \<and> click_submit browser photo_uploading = []"
proof -
  have empty: "file initial_state = None"
    by (simp add: initial_state_def)
  have busy: "loading photo_uploading"
    by (simp add: photo_uploading_def)
  from handleUpload_no_file [of initial_state browser initial_state]
    handleUpload_no_file [of photo_uploading browser]
  show ?thesis
    using empty busy by blast
qed

text \<open>
  Claim C2 as stated fails: with the busy flag true and a file selected, the handler
  shows no rejection message; it sends the request and stores the answer. The click
  on the disabled button shows no message either.
\<close>

theorem handleUpload_busy_counterexample:
  "loading photo_uploading
   \<and> file photo_uploading = Some photo
   \<and> handleUpload browser photo_uploading =
       [SetLoading True, ToastLoading ''Mengunggah file...'',
        HttpPost ''https://color.example/upload'' [(''file'', photo)],
        ToastDismiss (Some ''1''),
        ToastSuccess ''File berhasil diunggah!'',
        SetHexColor (JString ''#112233''),
        SetPreviousHash ''ba7816bf8f01cfea414140de5dae2223b00361a396177a9cb410ff61f20015ad'',
        SetLoading False]
   \<and> click_submit browser photo_uploading = []"
proof -
  have busy: "loading photo_uploading"
    by (simp add: photo_uploading_def)
  have sel: "file photo_uploading = Some photo"
    by (simp add: photo_uploading_def photo_selected_def)
  have trace: "handleUpload browser photo_uploading =
       [SetLoading True, ToastLoading ''Mengunggah file...'',
        HttpPost ''https://color.example/upload'' [(''file'', photo)],
        ToastDismiss (Some ''1''),
        ToastSuccess ''File berhasil diunggah!'',
        SetHexColor (JString ''#112233''),
        SetPreviousHash ''ba7816bf8f01cfea414140de5dae2223b00361a396177a9cb410ff61f20015ad'',
        SetLoading False]"
    by (simp add: handleUpload_def handleUpload_try_def sel hash_photo)
      (simp add: browser_def photo_uploading_def photo_selected_def initial_state_def)
  have click: "click_submit browser photo_uploading = []"
    using busy by (simp add: click_submit_def submit_disabled_def)
  from busy sel trace click show ?thesis
    by simp
qed

text \<open>
  Claim C3. When the fingerprint is new, the address is configured and the request
  resolves with a payload that has a \<open>hex_color\<close> field, \<open>handleUpload\<close> dismisses the
  working notification, shows the success notification, stores the field in the result
  colour and stores the fingerprint it computed as the last-submitted one.
\<close>

theorem handleUpload_success:
  assumes "file s = Some f"
    and "calculateFileHash e f = Inr h" and "h \<noteq> previousHash s"
    and "apiUrl e = Some url" and "url \<noteq> []"
    and "axios_post e url [(''file'', f)] = Inr resp"
    and "data resp = ObjData props" and "map_of props ''hex_color'' = Some c"
  shows "handleUpload e s =
           [SetLoading True, ToastLoading ''Mengunggah file...'',
            HttpPost url [(''file'', f)],
            ToastDismiss (Some (loading_toast_id e)),
            ToastSuccess ''File berhasil diunggah!'',
            SetHexColor c, SetPreviousHash h, SetLoading False]
         \<and> run st (handleUpload e s) =
             st\<lparr>hexColor := c, loading := False, previousHash := h\<rparr>"
  using assms
  by (simp add: handleUpload_def handleUpload_try_def run_def)

theorem handleUpload_success_witness:
  "file photo_selected = Some photo
   \<and> calculateFileHash browser photo =
       Inr ''ba7816bf8f01cfea414140de5dae2223b00361a396177a9cb410ff61f20015ad''
   \<and> previousHash photo_selected = []
   \<and> handleUpload browser photo_selected =
       [SetLoading True, ToastLoading ''Mengunggah file...'',
        HttpPost ''https://color.example/upload'' [(''file'', photo)],
        ToastDismiss (Some ''1''),
        ToastSuccess ''File berhasil diunggah!'',
        SetHexColor (JString ''#112233''),
        SetPreviousHash ''ba7816bf8f01cfea414140de5dae2223b00361a396177a9cb410ff61f20015ad'',
        SetLoading False]
   \<and> run photo_selected (handleUpload browser photo_selected) = photo_processed"
proof -
  have sel: "file photo_selected = Some photo"
    by (simp add: photo_selected_def)
  have fresh: "''ba7816bf8f01cfea414140de5dae2223b00361a396177a9cb410ff61f20015ad''
                 \<noteq> previousHash photo_selected"
    by (simp add: photo_selected_def initial_state_def)
  have url: "apiUrl browser = Some ''https://color.example/upload''"
    by (simp add: browser_def)
  have ne: "''https://color.example/upload'' \<noteq> []"
    by simp
  have post: "axios_post browser ''https://color.example/upload'' [(''file'', photo)] =
      Inr \<lparr>status = 200, data = ObjData [(''hex_color'', JString ''#112233'')]\<rparr>"
    by (simp add: browser_def)
  have payload: "data \<lparr>status = 200, data = ObjData [(''hex_color'', JString ''#112233'')]\<rparr> =
      ObjData [(''hex_color'', JString ''#112233'')]"
    by simp
  have field: "map_of [(''hex_color'', JString ''#112233'')] ''hex_color'' =
      Some (JString ''#112233'')"
    by simp
  have tid: "loading_toast_id browser = ''1''"
    by (simp add: browser_def)
  from handleUpload_success [OF sel hash_photo fresh url ne post payload field, of photo_selected]
  show ?thesis
    using sel hash_photo tid
    by (simp add: photo_processed_def photo_selected_def initial_state_def run_def)
qed

text \<open>
  Claim C4, as amended. A submission of a selected file fails when the digest promise
  is rejected, when the address is undefined or empty, when the request is rejected
  (with a response status or with none), or when it resolves with a \<open>null\<close> payload.
  In each of these cases exactly one failure notification is shown: the oversized-file
  message when the error carries the response status 413, the generic message
  otherwise, and the two differ. The result colour and the last-submitted fingerprint
  are what they were.
\<close>

theorem handleUpload_failure:
  assumes "file s = Some f"
    and "calculateFileHash e f = Inl err
         \<or> (\<exists>h. calculateFileHash e f = Inr h \<and> h \<noteq> previousHash s
                \<and> (apiUrl e = None \<or> apiUrl e = Some [])
                \<and> err = JsError ''API URL is not defined'' None)
         \<or> (\<exists>h url. calculateFileHash e f = Inr h \<and> h \<noteq> previousHash s
                \<and> apiUrl e = Some url \<and> url \<noteq> []
                \<and> axios_post e url [(''file'', f)] = Inl err)
         \<or> (\<exists>h url resp. calculateFileHash e f = Inr h \<and> h \<noteq> previousHash s
                \<and> apiUrl e = Some url \<and> url \<noteq> []
                \<and> axios_post e url [(''file'', f)] = Inr resp \<and> data resp = NoData
                \<and> err = JsError ''TypeError: Cannot read properties of null'' None)"
  shows "failure_notifications (handleUpload e s) =
           [if response_status err = Some 413
            then ''File terlalu besar! Ukuran file harus di bawah 3MB.''
            else ''Gagal mengunggah file! Silakan coba lagi.'']
         \<and> ''File terlalu besar! Ukuran file harus di bawah 3MB.''
             \<noteq> ''Gagal mengunggah file! Silakan coba lagi.''
         \<and> hexColor (run st (handleUpload e s)) = hexColor st
         \<and> previousHash (run st (handleUpload e s)) = previousHash st"
proof -
  consider
    (digest) "calculateFileHash e f = Inl err"
  | (address) h where "calculateFileHash e f = Inr h" and "h \<noteq> previousHash s"
      and "apiUrl e = None \<or> apiUrl e = Some []"
      and "err = JsError ''API URL is not defined'' None"
  | (rejected) h url where "calculateFileHash e f = Inr h" and "h \<noteq> previousHash s"
      and "apiUrl e = Some url" and "url \<noteq> []"
      and "axios_post e url [(''file'', f)] = Inl err"
  | (nodata) h url resp where "calculateFileHash e f = Inr h" and "h \<noteq> previousHash s"
      and "apiUrl e = Some url" and "url \<noteq> []"
      and "axios_post e url [(''file'', f)] = Inr resp" and "data resp = NoData"
      and "err = JsError ''TypeError: Cannot read properties of null'' None"
    using assms(2) by blast
  then show ?thesis
  proof cases
    case digest
    with assms(1) show ?thesis
      by (simp add: handleUpload_def handleUpload_try_def handleUpload_catch_def
          failure_notifications_def run_def)
  next
    case address
    with assms(1) show ?thesis
      by (auto simp: handleUpload_def handleUpload_try_def handleUpload_catch_def
          failure_notifications_def run_def)
  next
    case rejected
    with assms(1) show ?thesis
      by (simp add: handleUpload_def handleUpload_try_def handleUpload_catch_def
          failure_notifications_def run_def)
  next
    case nodata
    with assms(1) show ?thesis
      by (simp add: handleUpload_def handleUpload_try_def handleUpload_catch_def
          failure_notifications_def run_def)
  qed
qed

theorem handleUpload_failure_witness:
  "file photo_selected = Some photo
   \<and> axios_post too_large_reply ''https://color.example/upload'' [(''file'', photo)] =
       Inl (JsError ''Request failed with status code 413'' (Some 413))
   \<and> failure_notifications (handleUpload too_large_reply photo_selected) =
       [''File terlalu besar! Ukuran file harus di bawah 3MB.'']
   \<and> hexColor (run photo_processed (handleUpload too_large_reply photo_selected)) =
       JString ''#112233''
   \<and> previousHash (run photo_processed (handleUpload too_large_reply photo_selected)) =
       ''ba7816bf8f01cfea414140de5dae2223b00361a396177a9cb410ff61f20015ad''
   \<and> axios_post server_error ''https://color.example/upload'' [(''file'', photo)] =
       Inl (JsError ''Request failed with status code 500'' (Some 500))
   \<and> failure_notifications (handleUpload server_error photo_selected) =
       [''Gagal mengunggah file! Silakan coba lagi.'']
   \<and> axios_post connection_refused ''https://color.example/upload'' [(''file'', photo)] =
       Inl (JsError ''Network Error'' None)
   \<and> failure_notifications (handleUpload connection_refused photo_selected) =
       [''Gagal mengunggah file! Silakan coba lagi.'']
   \<and> calculateFileHash unreadable photo = Inl (JsError ''NotReadableError'' None)
   \<and> failure_notifications (handleUpload unreadable photo_selected) =
       [''Gagal mengunggah file! Silakan coba lagi.'']
   \<and> axios_post empty_reply ''https://color.example/upload'' [(''file'', photo)] =
       Inr \<lparr>status = 200, data = NoData\<rparr>
   \<and> failure_notifications (handleUpload empty_reply photo_selected) =
       [''Gagal mengunggah file! Silakan coba lagi.'']
   \<and> apiUrl unconfigured = None
   \<and> failure_notifications (handleUpload unconfigured photo_selected) =
       [''Gagal mengunggah file! Silakan coba lagi.'']"
proof -
  let ?h = "''ba7816bf8f01cfea414140de5dae2223b00361a396177a9cb410ff61f20015ad''"
  let ?url = "''https://color.example/upload''"
  have sel: "file photo_selected = Some photo"
    by (simp add: photo_selected_def)
  have fresh: "?h \<noteq> previousHash photo_selected"
    by (simp add: photo_selected_def initial_state_def)
  have ne: "?url \<noteq> []"
    by simp
  have h413: "calculateFileHash too_large_reply photo = Inr ?h"
    and h500: "calculateFileHash server_error photo = Inr ?h"
    and hnet: "calculateFileHash connection_refused photo = Inr ?h"
    and hnil: "calculateFileHash empty_reply photo = Inr ?h"
    by (simp_all add: too_large_reply_def server_error_def connection_refused_def
        empty_reply_def hash_photo_other_reply)
  have u413: "apiUrl too_large_reply = Some ?url"
    and u500: "apiUrl server_error = Some ?url"
    and unet: "apiUrl connection_refused = Some ?url"
    and unil: "apiUrl empty_reply = Some ?url"
    and unone: "apiUrl unconfigured = None"
    by (simp_all add: too_large_reply_def server_error_def connection_refused_def
        empty_reply_def unconfigured_def browser_def)
  have p413: "axios_post too_large_reply ?url [(''file'', photo)] =
      Inl (JsError ''Request failed with status code 413'' (Some 413))"
    by (simp add: too_large_reply_def)
  have p500: "axios_post server_error ?url [(''file'', photo)] =
      Inl (JsError ''Request failed with status code 500'' (Some 500))"
    by (simp add: server_error_def)
  have pnet: "axios_post connection_refused ?url [(''file'', photo)] =
      Inl (JsError ''Network Error'' None)"
    by (simp add: connection_refused_def)
  have pnil: "axios_post empty_reply ?url [(''file'', photo)] =
      Inr \<lparr>status = 200, data = NoData\<rparr>"
    by (simp add: empty_reply_def)
  have dfail: "calculateFileHash unreadable photo = Inl (JsError ''NotReadableError'' None)"
    by (simp add: calculateFileHash_def unreadable_def photo_def)
  have c413: "\<exists>h url. calculateFileHash too_large_reply photo = Inr h
      \<and> h \<noteq> previousHash photo_selected
      \<and> apiUrl too_large_reply = Some url \<and> url \<noteq> []
      \<and> axios_post too_large_reply url [(''file'', photo)] =
          Inl (JsError ''Request failed with status code 413'' (Some 413))"
    using h413 fresh u413 ne p413 by blast
  have c500: "\<exists>h url. calculateFileHash server_error photo = Inr h
      \<and> h \<noteq> previousHash photo_selected
      \<and> apiUrl server_error = Some url \<and> url \<noteq> []
      \<and> axios_post server_error url [(''file'', photo)] =
          Inl (JsError ''Request failed with status code 500'' (Some 500))"
    using h500 fresh u500 ne p500 by blast
  have cnet: "\<exists>h url. calculateFileHash connection_refused photo = Inr h
      \<and> h \<noteq> previousHash photo_selected
      \<and> apiUrl connection_refused = Some url \<and> url \<noteq> []
      \<and> axios_post connection_refused url [(''file'', photo)] =
          Inl (JsError ''Network Error'' None)"
    using hnet fresh unet ne pnet by blast
  have cnil: "\<exists>h url resp. calculateFileHash empty_reply photo = Inr h
      \<and> h \<noteq> previousHash photo_selected
      \<and> apiUrl empty_reply = Some url \<and> url \<noteq> []
      \<and> axios_post empty_reply url [(''file'', photo)] = Inr resp \<and> data resp = NoData
      \<and> JsError ''TypeError: Cannot read properties of null'' None =
          JsError ''TypeError: Cannot read properties of null'' None"
    using hnil fresh unil ne pnil by auto
  have cnone: "\<exists>h. calculateFileHash unconfigured photo = Inr h
      \<and> h \<noteq> previousHash photo_selected
      \<and> (apiUrl unconfigured = None \<or> apiUrl unconfigured = Some [])
      \<and> JsError ''API URL is not defined'' None = JsError ''API URL is not defined'' None"
    using hash_photo_unconfigured fresh unone by blast
  have color: "hexColor photo_processed = JString ''#112233''"
    and print: "previousHash photo_processed = ?h"
    by (simp_all add: photo_processed_def)
  from handleUpload_failure [OF sel disjI2 [OF disjI2 [OF disjI1 [OF c413]]], of photo_processed]
    handleUpload_failure [OF sel disjI2 [OF disjI2 [OF disjI1 [OF c500]]], of photo_processed]
    handleUpload_failure [OF sel disjI2 [OF disjI2 [OF disjI1 [OF cnet]]], of photo_processed]
    handleUpload_failure [OF sel disjI1 [OF dfail], of photo_processed]
    handleUpload_failure [OF sel disjI2 [OF disjI2 [OF disjI2 [OF cnil]]], of photo_processed]
    handleUpload_failure [OF sel disjI2 [OF disjI1 [OF cnone]], of photo_processed]
  show ?thesis
    using sel p413 p500 pnet pnil dfail unone color print by simp
qed

text \<open>
  Claim C4 as stated fails for a malformed response: a request that resolves with an
  object payload without a \<open>hex_color\<close> field is not a failure to the handler. It shows
  the success notification and no failure notification, stores \<open>undefined\<close> as the
  result colour and stores the fingerprint.
\<close>

theorem handleUpload_malformed_counterexample:
  "axios_post malformed_reply ''https://color.example/upload'' [(''file'', photo)] =
     Inr \<lparr>status = 200, data = ObjData []\<rparr>
   \<and> handleUpload malformed_reply photo_selected =
       [SetLoading True, ToastLoading ''Mengunggah file...'',
        HttpPost ''https://color.example/upload'' [(''file'', photo)],
        ToastDismiss (Some ''1''),
        ToastSuccess ''File berhasil diunggah!'',
        SetHexColor JUndefined,
        SetPreviousHash ''ba7816bf8f01cfea414140de5dae2223b00361a396177a9cb410ff61f20015ad'',
        SetLoading False]
   \<and> failure_notifications (handleUpload malformed_reply photo_selected) = []
   \<and> hexColor photo_selected = JString []
   \<and> hexColor (run photo_selected (handleUpload malformed_reply photo_selected)) = JUndefined
   \<and> previousHash photo_selected = []
   \<and> previousHash (run photo_selected (handleUpload malformed_reply photo_selected)) =
       ''ba7816bf8f01cfea414140de5dae2223b00361a396177a9cb410ff61f20015ad''"
proof -
  have post: "axios_post malformed_reply ''https://color.example/upload'' [(''file'', photo)] =
      Inr \<lparr>status = 200, data = ObjData []\<rparr>"
    by (simp add: malformed_reply_def)
  have hash: "calculateFileHash malformed_reply photo =
      Inr ''ba7816bf8f01cfea414140de5dae2223b00361a396177a9cb410ff61f20015ad''"
    by (simp add: malformed_reply_def hash_photo_other_reply)
  have trace: "handleUpload malformed_reply photo_selected =
       [SetLoading True, ToastLoading ''Mengunggah file...'',
        HttpPost ''https://color.example/upload'' [(''file'', photo)],
        ToastDismiss (Some ''1''),
        ToastSuccess ''File berhasil diunggah!'',
        SetHexColor JUndefined,
        SetPreviousHash ''ba7816bf8f01cfea414140de5dae2223b00361a396177a9cb410ff61f20015ad'',
        SetLoading False]"
    by (simp add: handleUpload_def handleUpload_try_def photo_selected_def hash)
      (simp add: malformed_reply_def browser_def initial_state_def)
  show ?thesis
    unfolding trace
    by (simp add: post failure_notifications_def run_def photo_selected_def initial_state_def)
qed

text \<open>
  Claim C5. A run of \<open>handleUpload\<close> that set the busy flag ends with the write of
  \<open>false\<close> to it, whatever the digest, the configuration and the endpoint did:
  afterwards the busy flag is false.
\<close>

theorem handleUpload_resets_busy:
  assumes "SetLoading True \<in> set (handleUpload e s)"
  shows "last (handleUpload e s) = SetLoading False
         \<and> loading (run st (handleUpload e s)) = False"
proof (cases "file s")
  case None
  with assms show ?thesis
    by (simp add: handleUpload_def)
next
  case (Some f)
  obtain acts thrown where "handleUpload_try e s f = (acts, thrown)"
    by (cases "handleUpload_try e s f")
  with Some have "\<exists>before. handleUpload e s = before @ [SetLoading False]"
    by (simp add: handleUpload_def)
  then show ?thesis
    by (auto simp: run_append run_Cons run_Nil)
qed

theorem handleUpload_resets_busy_witness:
  "SetLoading True \<in> set (handleUpload too_large_reply photo_selected)
   \<and> last (handleUpload too_large_reply photo_selected) = SetLoading False
   \<and> loading (run photo_selected (handleUpload too_large_reply photo_selected)) = False"
proof -
  have busy: "SetLoading True \<in> set (handleUpload too_large_reply photo_selected)"
    by (simp add: handleUpload_def handleUpload_try_def photo_selected_def
        hash_photo_too_large_reply)
      (simp add: too_large_reply_def browser_def initial_state_def)
  from handleUpload_resets_busy [OF busy, of photo_selected] busy show ?thesis
    by simp
qed

text \<open>
  Claim C6. Intake looks at the first chosen file. A file over 3 * 1024 * 1024 bytes is
  rejected with the size message, whatever its type; a file within the limit whose
  type is not in the JPEG/PNG set is rejected with the type message; the two messages
  differ. A rejection shows that one message, sends nothing and leaves the whole
  state (selected file, preview, result colour) as it was.
\<close>

theorem handleFileChange_rejects:
  "(3 * 1024 * 1024 < fsize f \<longrightarrow>
      handleFileChange e (f # rest) = [ToastError ''Ukuran file maksimal 3MB''])
   \<and> (fsize f \<le> 3 * 1024 * 1024
        \<and> ftype f \<notin> {''image/jpeg'', ''image/png'', ''image/jpg''} \<longrightarrow>
      handleFileChange e (f # rest) =
        [ToastError ''Hanya mendukung file berformat JPEG atau PNG''])
   \<and> ''Ukuran file maksimal 3MB'' \<noteq> ''Hanya mendukung file berformat JPEG atau PNG''
   \<and> (fileSchema_issues f \<noteq> [] \<longrightarrow>
        network_requests (handleFileChange e (f # rest)) = []
        \<and> run st (handleFileChange e (f # rest)) = st)"
  by (simp add: handleFileChange_def fileSchema_issues_def first_message_def
      network_requests_def run_def)

theorem handleFileChange_rejects_witness:
  "3 * 1024 * 1024 < fsize huge_scan
   \<and> handleFileChange browser [huge_scan, photo] = [ToastError ''Ukuran file maksimal 3MB'']
   \<and> fsize memo \<le> 3 * 1024 * 1024
   \<and> ftype memo \<notin> {''image/jpeg'', ''image/png'', ''image/jpg''}
   \<and> handleFileChange browser [memo] =
       [ToastError ''Hanya mendukung file berformat JPEG atau PNG'']
   \<and> fileSchema_issues memo \<noteq> []
   \<and> run photo_processed (handleFileChange browser [memo]) = photo_processed"
proof -
  have big: "3 * 1024 * 1024 < fsize huge_scan"
    by (simp add: fsize_def huge_scan_def)
  have small: "fsize memo \<le> 3 * 1024 * 1024"
    by (simp add: fsize_def memo_def)
  have plain: "ftype memo \<notin> {''image/jpeg'', ''image/png'', ''image/jpg''}"
    by (simp add: memo_def)
  have issue: "fileSchema_issues memo \<noteq> []"
    using plain by (simp add: fileSchema_issues_def)
  from handleFileChange_rejects [of huge_scan browser "[photo]"]
    handleFileChange_rejects [of memo browser "[]" photo_processed]
  show ?thesis
    using big small plain issue by blast
qed

text \<open>
  Claim C7. When the first chosen file has at most 3 * 1024 * 1024 bytes and one of the
  three accepted media types, intake selects it, stores the preview reference made
  for it, resets the result colour to the empty string and sends nothing.
\<close>

theorem handleFileChange_accepts:
  assumes "fsize f \<le> 3 * 1024 * 1024"
    and "ftype f \<in> {''image/jpeg'', ''image/png'', ''image/jpg''}"
  shows "handleFileChange e (f # rest) =
           [SetFile f, SetPreview (createObjectURL e f), SetHexColor (JString [])]
         \<and> run st (handleFileChange e (f # rest)) =
             st\<lparr>file := Some f, hexColor := JString [], preview := createObjectURL e f\<rparr>
         \<and> network_requests (handleFileChange e (f # rest)) = []"
  using assms
  by (auto simp: handleFileChange_def fileSchema_issues_def network_requests_def run_def)

theorem handleFileChange_accepts_witness:
  "fsize photo \<le> 3 * 1024 * 1024
   \<and> ftype photo \<in> {''image/jpeg'', ''image/png'', ''image/jpg''}
   \<and> handleFileChange browser [photo, memo] =
       [SetFile photo, SetPreview ''blob:photo.png'', SetHexColor (JString [])]
   \<and> run initial_state (handleFileChange browser [photo, memo]) = photo_selected
   \<and> network_requests (handleFileChange browser [photo, memo]) = []"
proof -
  have small: "fsize photo \<le> 3 * 1024 * 1024"
    by (simp add: fsize_def photo_def)
  have png: "ftype photo \<in> {''image/jpeg'', ''image/png'', ''image/jpg''}"
    by (simp add: photo_def)
  have url: "createObjectURL browser photo = ''blob:photo.png''"
    by (simp add: browser_def photo_def)
  from handleFileChange_accepts [OF small png, of browser "[memo]" initial_state]
  show ?thesis
    using small png url
    by (simp add: photo_selected_def initial_state_def run_def network_requests_def)
qed

text \<open>
  Claim C8, as amended. Nothing reads the configured address before a submission:
  \<open>handleUpload\<close> reads it after the fingerprint was found new, the busy flag set and
  the working notification shown. When it is then undefined or empty, the submission
  sends no request, shows the generic failure notification and clears the busy flag.
\<close>

theorem handleUpload_missing_apiUrl:
  assumes "file s = Some f"
    and "calculateFileHash e f = Inr h" and "h \<noteq> previousHash s"
    and "apiUrl e = None \<or> apiUrl e = Some []"
  shows "handleUpload e s =
           [SetLoading True, ToastLoading ''Mengunggah file...'', ToastDismiss None,
            ConsoleError ''Error uploading file:'' (JsError ''API URL is not defined'' None),
            ToastError ''Gagal mengunggah file! Silakan coba lagi.'', SetLoading False]
         \<and> network_requests (handleUpload e s) = []
         \<and> loading (run st (handleUpload e s)) = False"
  using assms
  by (auto simp: handleUpload_def handleUpload_try_def handleUpload_catch_def
      network_requests_def run_def)

theorem handleUpload_missing_apiUrl_witness:
  "file photo_selected = Some photo
   \<and> calculateFileHash unconfigured photo =
       Inr ''ba7816bf8f01cfea414140de5dae2223b00361a396177a9cb410ff61f20015ad''
   \<and> ''ba7816bf8f01cfea414140de5dae2223b00361a396177a9cb410ff61f20015ad''
       \<noteq> previousHash photo_selected
   \<and> apiUrl unconfigured = None
   \<and> failure_notifications (handleUpload unconfigured photo_selected) =
       [''Gagal mengunggah file! Silakan coba lagi.'']
   \<and> network_requests (handleUpload unconfigured photo_selected) = []
   \<and> loading (run photo_selected (handleUpload unconfigured photo_selected)) = False"
proof -
  have sel: "file photo_selected = Some photo"
    by (simp add: photo_selected_def)
  have fresh: "''ba7816bf8f01cfea414140de5dae2223b00361a396177a9cb410ff61f20015ad''
                 \<noteq> previousHash photo_selected"
    by (simp add: photo_selected_def initial_state_def)
  have absent: "apiUrl unconfigured = None"
    by (simp add: unconfigured_def)
  then have falsy: "apiUrl unconfigured = None \<or> apiUrl unconfigured = Some []"
    by simp
  from handleUpload_missing_apiUrl
    [OF sel hash_photo_unconfigured fresh falsy, of photo_selected]
  show ?thesis
    using sel hash_photo_unconfigured fresh absent
    by (simp add: failure_notifications_def network_requests_def run_def)
qed

text \<open>
  Claim C8 as stated fails: with no address configured the page starts in its initial
  state and takes a file in without any failure, and a submission with no file
  selected reports the "please upload first" message, not the generic failure. The
  missing address shows only in a submission of a selected file, after the busy flag
  was set.
\<close>

theorem missing_apiUrl_counterexample:
  "apiUrl unconfigured = None
   \<and> handleFileChange unconfigured [photo] =
       [SetFile photo, SetPreview ''blob:photo.png'', SetHexColor (JString [])]
   \<and> run initial_state (handleFileChange unconfigured [photo]) = photo_selected
   \<and> handleUpload unconfigured initial_state =
       [ToastError ''Silakan upload file terlebih dahulu!'']
   \<and> handleUpload unconfigured photo_selected =
       [SetLoading True, ToastLoading ''Mengunggah file...'', ToastDismiss None,
        ConsoleError ''Error uploading file:'' (JsError ''API URL is not defined'' None),
        ToastError ''Gagal mengunggah file! Silakan coba lagi.'', SetLoading False]"
proof -
  have absent: "apiUrl unconfigured = None"
    by (simp add: unconfigured_def)
  have intake: "handleFileChange unconfigured [photo] =
      [SetFile photo, SetPreview ''blob:photo.png'', SetHexColor (JString [])]"
    by (simp add: handleFileChange_def fileSchema_issues_def fsize_def photo_def
        unconfigured_def browser_def)
  have selected: "run initial_state
      [SetFile photo, SetPreview ''blob:photo.png'', SetHexColor (JString [])] = photo_selected"
    by (simp add: run_def photo_selected_def initial_state_def)
  have nofile: "handleUpload unconfigured initial_state =
      [ToastError ''Silakan upload file terlebih dahulu!'']"
    by (simp add: handleUpload_def initial_state_def)
  have submit: "handleUpload unconfigured photo_selected =
       [SetLoading True, ToastLoading ''Mengunggah file...'', ToastDismiss None,
        ConsoleError ''Error uploading file:'' (JsError ''API URL is not defined'' None),
        ToastError ''Gagal mengunggah file! Silakan coba lagi.'', SetLoading False]"
    by (simp add: handleUpload_def handleUpload_try_def handleUpload_catch_def
        hash_photo_unconfigured absent photo_selected_def initial_state_def)
  show ?thesis
    by (simp add: absent intake selected nofile submit)
qed

text \<open>
  Claim C9. A click on the swatch while the result colour is non-empty writes exactly
  that string to the clipboard, then shows the confirmation when the write resolves
  and the (different) failure notification when it is rejected; no state field
  changes.
\<close>

theorem copyToClipboard_frame:
  assumes "truthy (hexColor s)"
  shows "\<exists>c. hexColor s = JString c
           \<and> copyToClipboard e s =
               [ClipboardWriteText c,
                if clipboard_writeText e c
                then ToastSuccess ''Kode HEX berhasil disalin!''
                else ToastError ''Gagal menyalin kode HEX.'']
           \<and> run st (copyToClipboard e s) = st"
  using assms
  by (cases "hexColor s") (simp_all add: copyToClipboard_def run_def)

theorem copyToClipboard_frame_witness:
  "truthy (hexColor photo_processed)
   \<and> copyToClipboard browser photo_processed =
       [ClipboardWriteText ''#112233'', ToastSuccess ''Kode HEX berhasil disalin!'']
   \<and> copyToClipboard clipboard_denied photo_processed =
       [ClipboardWriteText ''#112233'', ToastError ''Gagal menyalin kode HEX.'']
   \<and> run photo_processed (copyToClipboard browser photo_processed) = photo_processed"
proof -
  have shown: "truthy (hexColor photo_processed)"
    by (simp add: photo_processed_def)
  have color: "hexColor photo_processed = JString ''#112233''"
    by (simp add: photo_processed_def)
  have ok: "clipboard_writeText browser ''#112233''"
    by (simp add: browser_def)
  have denied: "\<not> clipboard_writeText clipboard_denied ''#112233''"
    by (simp add: clipboard_denied_def)
  from copyToClipboard_frame [OF shown, of browser photo_processed]
    copyToClipboard_frame [OF shown, of clipboard_denied]
  show ?thesis
    using shown color ok denied by auto
qed

text \<open>
  Claim C10, as amended. On the duplicate path of \<open>handleUpload\<close> the busy flag is never
  set to true: in any run, \<open>setLoading(true)\<close> is called only when the fingerprint was
  computed and found different from the last-submitted one. The two notification
  steps change no state, and the \<open>finally\<close> block then writes \<open>false\<close> to the busy
  flag, so the selected file, the preview, the result colour and the last-submitted
  fingerprint never change and the busy flag is false afterwards. When the busy flag
  was false at the start, the submit button is enabled after every step and the state
  at the end is the state at the start.
\<close>

theorem handleUpload_duplicate_frame:
  assumes "file s = Some f" and "calculateFileHash e f = Inr (previousHash s)"
  shows "SetLoading True \<notin> set (handleUpload e s)
         \<and> (\<forall>st n. run st (take n (handleUpload e s)) =
               (if n < 3 then st else st\<lparr>loading := False\<rparr>))
         \<and> (\<forall>st. run st (handleUpload e s) = st\<lparr>loading := False\<rparr>)
         \<and> (\<not> loading s \<longrightarrow>
               run s (handleUpload e s) = s
               \<and> (\<forall>n. \<not> submit_disabled (run s (take n (handleUpload e s)))))
         \<and> (\<forall>e' s'. SetLoading True \<in> set (handleUpload e' s') \<longrightarrow>
               (\<exists>f' h. file s' = Some f' \<and> calculateFileHash e' f' = Inr h
                  \<and> h \<noteq> previousHash s'))"
proof -
  note trace = duplicate_trace [OF assms]
  have never: "SetLoading True \<notin> set (handleUpload e s)"
    by (simp add: trace)
  have steps: "run st (take n (handleUpload e s)) =
      (if n < 3 then st else st\<lparr>loading := False\<rparr>)" for st n
    unfolding trace by (rule duplicate_steps)
  have frame: "run st (handleUpload e s) = st\<lparr>loading := False\<rparr>" for st
    by (simp add: trace run_def)
  have idle: "run s (handleUpload e s) = s
      \<and> (\<forall>n. \<not> submit_disabled (run s (take n (handleUpload e s))))"
    if "\<not> loading s"
    using that by (simp add: frame steps submit_disabled_def)
  from never steps frame idle busy_after_fresh_hash show ?thesis
    by blast
qed

theorem handleUpload_duplicate_frame_witness:
  "file photo_processed = Some photo
   \<and> calculateFileHash browser photo = Inr (previousHash photo_processed)
   \<and> \<not> loading photo_processed
   \<and> SetLoading True \<notin> set (handleUpload browser photo_processed)
   \<and> \<not> submit_disabled (run photo_processed (take 2 (handleUpload browser photo_processed)))
   \<and> run photo_processed (handleUpload browser photo_processed) = photo_processed
   \<and> SetLoading True \<in> set (handleUpload browser photo_selected)
   \<and> calculateFileHash browser photo \<noteq> Inr (previousHash photo_selected)"
proof -
  have sel: "file photo_processed = Some photo"
    by (simp add: photo_processed_def photo_selected_def)
  have dup: "calculateFileHash browser photo = Inr (previousHash photo_processed)"
    by (simp add: hash_photo photo_processed_def photo_selected_def)
  have idle: "\<not> loading photo_processed"
    by (simp add: photo_processed_def photo_selected_def initial_state_def)
  have fresh: "SetLoading True \<in> set (handleUpload browser photo_selected)"
    by (simp add: handleUpload_def handleUpload_try_def photo_selected_def hash_photo)
      (simp add: browser_def initial_state_def)
  have other: "file photo_selected = Some f \<Longrightarrow> f = photo" for f
    by (simp add: photo_selected_def)
  from handleUpload_duplicate_frame [OF sel dup] show ?thesis
    using sel dup idle fresh other by (metis sum.inject(2))
qed

text \<open>
  Claim C10 as stated fails when the handler runs with the busy flag true: the submit
  button is disabled during the two notification steps, and the \<open>finally\<close> block
  changes the busy flag from true to false.
\<close>

theorem handleUpload_duplicate_busy_counterexample:
  "file busy_duplicate = Some photo
   \<and> calculateFileHash browser photo = Inr (previousHash busy_duplicate)
   \<and> loading busy_duplicate
   \<and> submit_disabled (run busy_duplicate (take 2 (handleUpload browser busy_duplicate)))
   \<and> run busy_duplicate (handleUpload browser busy_duplicate) = photo_processed
   \<and> \<not> loading photo_processed
   \<and> run busy_duplicate (handleUpload browser busy_duplicate) \<noteq> busy_duplicate"
proof -
  have sel: "file busy_duplicate = Some photo"
    by (simp add: busy_duplicate_def photo_processed_def photo_selected_def)
  have dup: "calculateFileHash browser photo = Inr (previousHash busy_duplicate)"
    by (simp add: hash_photo busy_duplicate_def photo_processed_def photo_selected_def)
  have busy: "loading busy_duplicate"
    by (simp add: busy_duplicate_def)
  have idle: "\<not> loading photo_processed"
    by (simp add: photo_processed_def photo_selected_def initial_state_def)
  have cleared: "busy_duplicate\<lparr>loading := False\<rparr> = photo_processed"
    by (simp add: busy_duplicate_def photo_processed_def photo_selected_def initial_state_def)
  note trace = duplicate_trace [OF sel dup]
  have during: "submit_disabled (run busy_duplicate (take 2 (handleUpload browser busy_duplicate)))"
    unfolding trace using busy by (simp add: run_def submit_disabled_def)
  have after: "run busy_duplicate (handleUpload browser busy_duplicate) = photo_processed"
    unfolding trace using cleared by (simp add: run_def)
  have changed: "photo_processed \<noteq> busy_duplicate"
    using busy idle by auto
  from sel dup busy during after idle changed show ?thesis
    by simp
qed

end
